theory Spec2Isabelle
  imports Complex_Main "HOL-Library.Word"
begin

unbundle bit_operations_syntax

section \<open>Python values used by the trace post-processor\<close>

text \<open>
  The program is \<^verbatim>\<open>src/python/_init_.py\<close>. Text is modelled as \<^typ>\<open>string\<close>, each
  \<^typ>\<open>char\<close> standing for one code point below 256; a trace is assumed to stay in
  that range. Exceptions are values of \<open>py_error\<close>, and a function that can raise
  returns \<open>py_error + 'a\<close> with \<open>Inl\<close> for the exception.
\<close>

datatype py_error = ValueError | StructError | IndexError | ZeroDivisionError
  | FileNotFoundError

subsection \<open>\<^verbatim>\<open>str.strip\<close>, \<^verbatim>\<open>str.split\<close> and \<^verbatim>\<open>in\<close>\<close>

text \<open>
  The code points below 256 for which \<^verbatim>\<open>str.isspace\<close> holds: these are what
  \<^verbatim>\<open>strip()\<close> removes and what \<^verbatim>\<open>split()\<close> separates on.
\<close>

definition is_space :: "char \<Rightarrow> bool" where
  "is_space c \<longleftrightarrow> (of_char c :: nat) \<in> {9, 10, 11, 12, 13, 28, 29, 30, 31, 32, 133, 160}"

definition strip :: "string \<Rightarrow> string" where
  "strip s = rev (dropWhile is_space (rev (dropWhile is_space s)))"

text \<open>\<open>split_aux w s\<close>: \<open>w\<close> is the field being read, \<open>s\<close> the text still to read.\<close>

fun split_aux :: "string \<Rightarrow> string \<Rightarrow> string list" where
  "split_aux w [] = (if w = [] then [] else [w])"
| "split_aux w (c # cs) =
     (if is_space c then (if w = [] then split_aux [] cs else w # split_aux [] cs)
      else split_aux (w @ [c]) cs)"

definition split :: "string \<Rightarrow> string list" where
  "split s = split_aux [] s"

fun starts_with :: "string \<Rightarrow> string \<Rightarrow> bool" where
  "starts_with [] s = True"
| "starts_with (p # ps) [] = False"
| "starts_with (p # ps) (c # cs) = (p = c \<and> starts_with ps cs)"

text \<open>\<open>contains sub s\<close> is the Python test \<^verbatim>\<open>sub in s\<close>.\<close>

fun contains :: "string \<Rightarrow> string \<Rightarrow> bool" where
  "contains sub [] = (sub = [])"
| "contains sub (c # cs) = (starts_with sub (c # cs) \<or> contains sub cs)"

subsection \<open>\<^verbatim>\<open>int(s, base)\<close>\<close>

text \<open>
  \<^verbatim>\<open>int\<close> on a string skips surrounding white space, reads an optional sign, for base
  16 an optional \<^verbatim>\<open>0x\<close> or \<^verbatim>\<open>0X\<close> (2: \<^verbatim>\<open>0b\<close>, 8: \<^verbatim>\<open>0o\<close>) which one underscore may
  follow, then digits with single underscores between them; anything else raises
  ValueError. Of the white space of \<open>is_space\<close>, the code points 28 to 31 are not
  skipped by \<^verbatim>\<open>int\<close>. The interpreter's limit on the number of decimal digits is not
  modelled.
\<close>

definition int_space :: "char \<Rightarrow> bool" where
  "int_space c \<longleftrightarrow> (of_char c :: nat) \<in> {9, 10, 11, 12, 13, 32, 133, 160}"

definition digit_value :: "char \<Rightarrow> nat" where
  "digit_value c =
     (let n = of_char c in
      if 48 \<le> n \<and> n \<le> 57 then n - 48
      else if 97 \<le> n \<and> n \<le> 122 then n - 87
      else if 65 \<le> n \<and> n \<le> 90 then n - 55
      else 37)"

definition is_hex :: "char \<Rightarrow> bool" where
  "is_hex c \<longleftrightarrow> digit_value c < 16"

definition strip_sign :: "string \<Rightarrow> bool \<times> string" where
  "strip_sign s =
     (case s of
        c # r \<Rightarrow> if c = CHR ''+'' then (False, r)
                 else if c = CHR ''-'' then (True, r) else (False, s)
      | [] \<Rightarrow> (False, s))"

definition strip_prefix :: "nat \<Rightarrow> string \<Rightarrow> string" where
  "strip_prefix base s =
     (case s of
        z # x # r \<Rightarrow>
          if z = CHR ''0'' \<and>
             (base = 16 \<and> (x = CHR ''x'' \<or> x = CHR ''X'') \<or>
              base = 8 \<and> (x = CHR ''o'' \<or> x = CHR ''O'') \<or>
              base = 2 \<and> (x = CHR ''b'' \<or> x = CHR ''B''))
          then (case r of u # r' \<Rightarrow> if u = CHR ''_'' then r' else r | [] \<Rightarrow> r)
          else s
      | _ \<Rightarrow> s)"

text \<open>
  \<open>scan_digits base prev acc s\<close> reads digits and underscores from \<open>s\<close>; \<open>prev\<close>
  says that the character just read was an underscore. It returns the value read and
  the rest of the text, or None at a doubled or trailing underscore.
\<close>

fun scan_digits :: "nat \<Rightarrow> bool \<Rightarrow> nat \<Rightarrow> string \<Rightarrow> (nat \<times> string) option" where
  "scan_digits base prev acc [] = (if prev then None else Some (acc, []))"
| "scan_digits base prev acc (c # cs) =
     (if c = CHR ''_'' then (if prev then None else scan_digits base True acc cs)
      else if digit_value c < base then scan_digits base False (acc * base + digit_value c) cs
      else if prev then None else Some (acc, c # cs))"

definition py_int :: "string \<Rightarrow> nat \<Rightarrow> py_error + int" where
  "py_int s base =
     (let (neg, s2) = strip_sign (dropWhile int_space s);
          s3 = strip_prefix base s2
      in if s3 = [] \<or> hd s3 = CHR ''_'' \<or> \<not> digit_value (hd s3) < base then Inl ValueError
         else (case scan_digits base False 0 s3 of
                 None \<Rightarrow> Inl ValueError
               | Some (v, rest) \<Rightarrow>
                   if dropWhile int_space rest \<noteq> [] then Inl ValueError
                   else Inr (if neg then - int v else int v)))"

subsection \<open>\<^verbatim>\<open>struct.pack('!I', v)\<close> and \<^verbatim>\<open>struct.unpack('!f', bytes)\<close>\<close>

text \<open>
  A float read from the trace is kept as its binary32 bit pattern: widening binary32 to
  the interpreter's double is exact, so the pattern determines the Python float.
\<close>

datatype binary32 = Binary32 (bits: "32 word")

instantiation binary32 :: zero
begin
definition zero_binary32 :: binary32 where
  "zero_binary32 = Binary32 0"
instance ..
end

text \<open>\<^verbatim>\<open>'!I'\<close>: four bytes, most significant first; struct.error outside \<open>[0, 2^32)\<close>.\<close>

definition pack_I :: "int \<Rightarrow> py_error + 8 word list" where
  "pack_I v =
     (if 0 \<le> v \<and> v < 2 ^ 32
      then Inr [word_of_int (v div 2 ^ 24), word_of_int (v div 2 ^ 16),
                word_of_int (v div 2 ^ 8), word_of_int v]
      else Inl StructError)"

text \<open>\<^verbatim>\<open>'!f'\<close>: four bytes, most significant first, read as one binary32.\<close>

definition unpack_f :: "8 word list \<Rightarrow> py_error + binary32" where
  "unpack_f bs =
     (case bs of
        [b0, b1, b2, b3] \<Rightarrow>
          Inr (Binary32 (push_bit 24 (ucast b0) OR push_bit 16 (ucast b1)
                         OR push_bit 8 (ucast b2) OR ucast b3))
      | _ \<Rightarrow> Inl StructError)"

section \<open>Decoding and pairing\<close>

text \<open>\<^verbatim>\<open>filter_lines_by_flw\<close>, line 45.\<close>

definition filter_lines_by_flw :: "string list \<Rightarrow> string list" where
  "filter_lines_by_flw lines = filter (contains ''flw'') lines"

text \<open>\<^verbatim>\<open>extract_7th_column\<close>, line 49.\<close>

definition extract_7th_column :: "string list \<Rightarrow> string list" where
  "extract_7th_column lines =
     map (\<lambda>line. split (strip line) ! 6)
         (filter (\<lambda>line. length (split (strip line)) > 6) lines)"

text \<open>
  \<^verbatim>\<open>hex_to_float\<close>, line 53. The \<^verbatim>\<open>except ValueError\<close> skips the entry; struct.error
  is not a ValueError and leaves the function.
\<close>

fun hex_to_float :: "string list \<Rightarrow> py_error + binary32 list" where
  "hex_to_float [] = Inr []"
| "hex_to_float (hex_str # hex_array) =
     (case py_int hex_str 16 of
        Inl ValueError \<Rightarrow> hex_to_float hex_array
      | Inl e \<Rightarrow> Inl e
      | Inr hex_value \<Rightarrow>
          (case pack_I hex_value of
             Inl ValueError \<Rightarrow> hex_to_float hex_array
           | Inl e \<Rightarrow> Inl e
           | Inr bs \<Rightarrow>
               (case unpack_f bs of
                  Inl ValueError \<Rightarrow> hex_to_float hex_array
                | Inl e \<Rightarrow> Inl e
                | Inr float_value \<Rightarrow>
                    (case hex_to_float hex_array of
                       Inl e \<Rightarrow> Inl e
                     | Inr result \<Rightarrow> Inr (float_value # result)))))"

datatype 'a pycomplex = PyComplex (real_part: 'a) (imag_part: 'a)

text \<open>The loop of \<^verbatim>\<open>parse_complex_array\<close>, lines 70 to 76: two floats at a time.\<close>

fun complex_array :: "'a::zero list \<Rightarrow> 'a pycomplex list" where
  "complex_array [] = []"
| "complex_array [x] = [PyComplex x 0]"
| "complex_array (x # y # float_array) = PyComplex x y # complex_array float_array"

text \<open>The slice \<^verbatim>\<open>xs[:n]\<close>; a negative \<open>n\<close> counts from the end.\<close>

definition slice_to :: "'a list \<Rightarrow> int \<Rightarrow> 'a list" where
  "slice_to xs n = (if 0 \<le> n then take (nat n) xs else take (length xs - nat (- n)) xs)"

definition parse_complex_array :: "'a::zero list \<Rightarrow> int \<Rightarrow> 'a pycomplex list" where
  "parse_complex_array float_array sz = slice_to (complex_array float_array) sz"

text \<open>
  The body of the loop in \<^verbatim>\<open>main\<close>, lines 237 to 240: every segment is decoded and
  paired; an exception of \<open>hex_to_float\<close> ends the loop.
\<close>

fun process_arrays :: "string list list \<Rightarrow> int \<Rightarrow> py_error + binary32 pycomplex list list" where
  "process_arrays [] extracted_size = Inr []"
| "process_arrays (array # arrays) extracted_size =
     (case hex_to_float (extract_7th_column (filter_lines_by_flw array)) of
        Inl e \<Rightarrow> Inl e
      | Inr float_data \<Rightarrow>
          (case process_arrays arrays extracted_size of
             Inl e \<Rightarrow> Inl e
           | Inr complex_arrays \<Rightarrow>
               Inr (parse_complex_array float_data extracted_size # complex_arrays)))"

section \<open>The segmenter\<close>

text \<open>The local variables of \<^verbatim>\<open>find_and_save_complex_lines\<close>, lines 9 to 15.\<close>

record scan_state =
  all_results :: "string list list"
  result :: "string list"
  size_line :: string
  is_saving :: bool
  prev_line :: "string option"

definition initial_state :: scan_state where
  "initial_state =
     \<lparr>all_results = [], result = [], size_line = [], is_saving = False, prev_line = None\<rparr>"

text \<open>
  Lines 21 to 25: the tests that guard the toggle. \<open>prev\<close> and \<open>line\<close> are the lines as
  read, with their line ends.
\<close>

definition sentinel_transition :: "string option \<Rightarrow> string \<Rightarrow> bool" where
  "sentinel_transition prev line \<longleftrightarrow>
     (case prev of
        None \<Rightarrow> False
      | Some p \<Rightarrow>
          p \<noteq> [] \<and>
          (let prev_columns = split (strip p); columns = split (strip line)
           in length prev_columns > 6 \<and> length columns > 6 \<and>
              prev_columns ! 6 = ''00000123'' \<and> columns ! 6 = ''00000456''))"

text \<open>One turn of the loop, lines 18 to 38.\<close>

definition scan_line :: "scan_state \<Rightarrow> string \<Rightarrow> scan_state" where
  "scan_line s line =
     (let line_strip = strip line;
          s1 = (if sentinel_transition (prev_line s) line
                then (if is_saving s
                      then s\<lparr>all_results := all_results s @ [result s], result := [],
                             is_saving := False\<rparr>
                      else s\<lparr>is_saving := True\<rparr>)
                else s);
          s2 = (if is_saving s1
                then s1\<lparr>size_line := (if contains ''c.mv     a1'' line_strip then line_strip
                                        else size_line s1),
                        result := result s1 @ [line_strip]\<rparr>
                else s1)
      in s2\<lparr>prev_line := Some line\<rparr>)"

text \<open>Lines 40 to 43: what is returned from the state the loop ends in.\<close>

definition finish :: "scan_state \<Rightarrow> string list list \<times> string" where
  "finish s =
     (if result s \<noteq> [] then all_results s @ [result s] else all_results s, size_line s)"

definition segment_lines :: "string list \<Rightarrow> string list list \<times> string" where
  "segment_lines lines = finish (foldl scan_line initial_state lines)"

text \<open>
  A file system maps a name to the lines of the file, or to nothing when there is no
  such file; a file that exists is taken to be readable text.
\<close>

definition find_and_save_complex_lines ::
    "(string \<rightharpoonup> string list) \<Rightarrow> string \<Rightarrow> py_error + string list list \<times> string" where
  "find_and_save_complex_lines fs filename =
     (case fs filename of
        None \<Rightarrow> Inl FileNotFoundError
      | Some lines \<Rightarrow> Inr (segment_lines lines))"

section \<open>The accuracy analysis\<close>

text \<open>
  The arithmetic of \<^verbatim>\<open>analyze_fft_accuracy\<close> is modelled over the real numbers: a
  Python float is taken as the real it denotes, so rounding, infinities, NaN and the
  sign of zero are left out, and \<^verbatim>\<open>1e-3\<close> is the real \<open>1/1000\<close>.
\<close>

text \<open>\<^verbatim>\<open>math.atan2(y, x)\<close>, with \<^verbatim>\<open>atan2(0, 0) = 0\<close>.\<close>

definition atan2 :: "real \<Rightarrow> real \<Rightarrow> real" where
  "atan2 y x =
     (if 0 < x then arctan (y / x)
      else if x < 0 then (if 0 \<le> y then arctan (y / x) + pi else arctan (y / x) - pi)
      else if 0 < y then pi / 2
      else if y < 0 then - (pi / 2)
      else 0)"

text \<open>\<^verbatim>\<open>abs\<close> of a complex number.\<close>

definition py_abs :: "real pycomplex \<Rightarrow> real" where
  "py_abs z = sqrt ((real_part z)\<^sup>2 + (imag_part z)\<^sup>2)"

text \<open>Line 171.\<close>

definition mag_error :: "real pycomplex \<Rightarrow> real pycomplex \<Rightarrow> real" where
  "mag_error asm_val ref_val = \<bar>py_abs asm_val - py_abs ref_val\<bar>"

text \<open>Lines 174 to 179: the phase error in degrees.\<close>

definition phase_error :: "real pycomplex \<Rightarrow> real pycomplex \<Rightarrow> real" where
  "phase_error asm_val ref_val =
     (let asm_phase = atan2 (imag_part asm_val) (real_part asm_val);
          ref_phase = atan2 (imag_part ref_val) (real_part ref_val);
          d = \<bar>asm_phase - ref_phase\<bar>;
          d' = (if d > pi then 2 * pi - d else d)
      in d' * 180 / pi)"

text \<open>The two lists built by the loop of lines 170 to 179, over \<^verbatim>\<open>zip\<close>.\<close>

definition magnitude_errors :: "real pycomplex list \<Rightarrow> real pycomplex list \<Rightarrow> real list" where
  "magnitude_errors assembly_fft reference_fft =
     map (\<lambda>(asm_val, ref_val). mag_error asm_val ref_val) (zip assembly_fft reference_fft)"

definition phase_errors :: "real pycomplex list \<Rightarrow> real pycomplex list \<Rightarrow> real list" where
  "phase_errors assembly_fft reference_fft =
     map (\<lambda>(asm_val, ref_val). phase_error asm_val ref_val) (zip assembly_fft reference_fft)"

text \<open>\<^verbatim>\<open>max\<close> of a list raises ValueError on the empty list.\<close>

definition py_max :: "real list \<Rightarrow> py_error + real" where
  "py_max xs = (case xs of [] \<Rightarrow> Inl ValueError | x # r \<Rightarrow> Inr (foldl max x r))"

text \<open>\<^verbatim>\<open>sum(xs) / len(xs)\<close>.\<close>

definition py_avg :: "real list \<Rightarrow> py_error + real" where
  "py_avg xs = (if length xs = 0 then Inl ZeroDivisionError
                else Inr (sum_list xs / real (length xs)))"

text \<open>What the function prints: the four statistics and the verdict.\<close>

record accuracy =
  max_mag_error :: real
  avg_mag_error :: real
  max_phase_error :: real
  avg_phase_error :: real
  verdict :: bool

text \<open>\<^verbatim>\<open>analyze_fft_accuracy\<close>, line 159; the statistics in the order of lines 182 to 185.\<close>

definition analyze_fft_accuracy ::
    "real pycomplex list \<Rightarrow> real pycomplex list \<Rightarrow> py_error + accuracy" where
  "analyze_fft_accuracy assembly_fft reference_fft =
     (let mags = magnitude_errors assembly_fft reference_fft;
          phases = phase_errors assembly_fft reference_fft
      in case py_max mags of
           Inl e \<Rightarrow> Inl e
         | Inr mm \<Rightarrow>
            (case py_avg mags of
               Inl e \<Rightarrow> Inl e
             | Inr am \<Rightarrow>
                (case py_max phases of
                   Inl e \<Rightarrow> Inl e
                 | Inr mp \<Rightarrow>
                    (case py_avg phases of
                       Inl e \<Rightarrow> Inl e
                     | Inr ap \<Rightarrow>
                         Inr \<lparr>max_mag_error = mm, avg_mag_error = am,
                              max_phase_error = mp, avg_phase_error = ap,
                              verdict = (mm < 1 / 1000 \<and> mp < 5)\<rparr>))))"

section \<open>The entry point\<close>

text \<open>
  What \<^verbatim>\<open>main\<close> prints, line by line. \<open>Text\<close> is a fixed message; \<open>Report\<close> stands for
  the lines printed by lines 246 to 262 (the reference transform of the numeric library,
  the tables, the accuracy analysis and the plot).
\<close>

datatype printed = Text string | SizeDetected int | LogNotFound string
  | ErrorProcessing py_error | Traceback py_error | Report string

text \<open>How the \<^verbatim>\<open>try\<close> block of lines 221 to 265 ends, with what it printed.\<close>

datatype try_result = Completed "printed list" | Raised "printed list" py_error
  | SysExit "printed list" nat

text \<open>
  Lines 222 to 265. \<open>report\<close> stands for lines 246 to 262: given the two signals and the
  size it returns what they print and the exception they end with, if any.
\<close>

definition main_try ::
    "(string \<rightharpoonup> string list) \<Rightarrow> string \<Rightarrow>
     (binary32 pycomplex list \<Rightarrow> binary32 pycomplex list \<Rightarrow> int \<Rightarrow> printed list \<times> py_error option)
     \<Rightarrow> try_result" where
  "main_try fs filename report =
     (case find_and_save_complex_lines fs filename of
        Inl e \<Rightarrow> Raised [] e
      | Inr (arrays, size_line') \<Rightarrow>
          if arrays = [] \<or> size_line' = []
          then SysExit [Text ''No FFT data found in log file.''] 1
          else (case extract_7th_column [size_line'] of
                  [] \<Rightarrow> Raised [] IndexError
                | col # _ \<Rightarrow>
                   (case py_int col 16 of
                      Inl e \<Rightarrow> Raised [] e
                    | Inr extracted_size \<Rightarrow>
                       (case process_arrays arrays extracted_size of
                          Inl e \<Rightarrow> Raised [SizeDetected extracted_size] e
                        | Inr complex_arrays \<Rightarrow>
                            if length complex_arrays \<ge> 2
                            then (case report (complex_arrays ! 0) (complex_arrays ! 1)
                                         extracted_size of
                                    (out, None) \<Rightarrow> Completed (SizeDetected extracted_size # out)
                                  | (out, Some e) \<Rightarrow>
                                      Raised (SizeDetected extracted_size # out) e)
                            else Completed
                                   [SizeDetected extracted_size,
                                    Text ''Insufficient data arrays found. Expected at least 2 (input and output).'']))))"

text \<open>
  \<^verbatim>\<open>main\<close>, line 203: the lines printed and the exit status of the process. An exception
  that nothing catches ends the process with a traceback and status 1; \<^verbatim>\<open>sys.exit(1)\<close>
  is not an \<^verbatim>\<open>Exception\<close> and passes through both handlers; after a handler has run
  the process ends normally, with status 0.
\<close>

definition main ::
    "string list \<Rightarrow> (string \<rightharpoonup> string list) \<Rightarrow>
     (binary32 pycomplex list \<Rightarrow> binary32 pycomplex list \<Rightarrow> int \<Rightarrow> printed list \<times> py_error option)
     \<Rightarrow> printed list \<times> nat" where
  "main argv fs report =
     (if length argv \<noteq> 3
      then ([Text ''Usage: python fft_visualizer.py <size> <type>'',
             Text ''Example: python fft_visualizer.py 8 NV''], 1)
      else (case py_int (argv ! 1) 10 of
              Inl e \<Rightarrow> ([Traceback e], 1)
            | Inr sz \<Rightarrow>
               (let type_arg = argv ! 2 in
                if type_arg \<noteq> ''NV'' \<and> type_arg \<noteq> ''V''
                then ([Text (''Type must be '' @ [CHR 0x27] @ ''NV'' @ [CHR 0x27] @
                            '' (non-vectorized) or '' @ [CHR 0x27] @ ''V'' @ [CHR 0x27] @
                            '' (vectorized)'')], 1)
                else (let filename = (if type_arg = ''NV'' then ''veer/tempFiles/logNV.txt''
                                      else ''veer/tempFiles/logV.txt'')
                      in case main_try fs filename report of
                           SysExit out code \<Rightarrow> (out, code)
                         | Completed out \<Rightarrow> (out, 0)
                         | Raised out e \<Rightarrow>
                             if e = FileNotFoundError
                             then (out @ [LogNotFound filename,
                                          Text ''Make sure to run the FFT program first.''], 0)
                             else (out @ [ErrorProcessing e], 0)))))"

section \<open>Pairing and truncation\<close>

lemma length_complex_array: "length (complex_array fs) = (length fs + 1) div 2"
  by (induction fs rule: complex_array.induct) simp_all

lemma complex_array_Nil_iff: "complex_array fs = [] \<longleftrightarrow> fs = []"
  by (induction fs rule: complex_array.induct) simp_all

lemma last_complex_array_odd:
  "odd (length fs) \<Longrightarrow> last (complex_array fs) = PyComplex (last fs) 0"
proof (induction fs rule: complex_array.induct)
  case 1
  then show ?case by simp
next
  case (2 x)
  then show ?case by simp
next
  case (3 x y fs)
  then have "fs \<noteq> []" by auto
  with 3 show ?case by (simp add: complex_array_Nil_iff)
qed

lemma length_slice_to: "0 \<le> n \<Longrightarrow> length (slice_to xs n) = min (nat n) (length xs)"
  by (simp add: slice_to_def)

lemmas decode_defs = filter_lines_by_flw_def extract_7th_column_def split_def strip_def
  is_space_def py_int_def strip_sign_def strip_prefix_def digit_value_def int_space_def
  pack_I_def unpack_f_def

lemma decode_three_lines:
  "hex_to_float (extract_7th_column (filter_lines_by_flw
     [''1 2 3 4 5 flw 3f800000'', ''1 2 3 4 5 flw 40000000'', ''1 2 3 4 5 flw 40400000'']))
   = Inr [Binary32 0x3f800000, Binary32 0x40000000, Binary32 0x40400000]"
  by (simp add: decode_defs)

text \<open>
  C1, as the code has it. For a target size \<open>N \<ge> 0\<close> and a segment whose float-load lines
  decode to \<open>M\<close> floats: if \<open>M \<ge> 2N\<close> the builder returns exactly \<open>N\<close> samples; if
  \<open>M < 2N\<close> it returns \<open>\<lceil>M/2\<rceil>\<close> samples, and that number is \<open>N\<close> exactly when \<open>M = 2N - 1\<close>.
\<close>

theorem builder_truncation:
  assumes "hex_to_float (extract_7th_column (filter_lines_by_flw segment)) = Inr floats"
    and "0 \<le> N"
  shows "(2 * N \<le> int (length floats) \<longrightarrow> int (length (parse_complex_array floats N)) = N) \<and>
         (int (length floats) < 2 * N \<longrightarrow>
            length (parse_complex_array floats N) = (length floats + 1) div 2 \<and>
            (int (length (parse_complex_array floats N)) = N \<longleftrightarrow>
             int (length floats) = 2 * N - 1))"
  using assms(2) by (auto simp: parse_complex_array_def length_slice_to length_complex_array)

theorem builder_truncation_witness:
  "length (parse_complex_array [Binary32 0x3f800000, Binary32 0x40000000, Binary32 0x40400000] 1) = 1 \<and>
   length (parse_complex_array [Binary32 0x3f800000, Binary32 0x40000000, Binary32 0x40400000] 3) = 2"
  using builder_truncation [OF decode_three_lines, of 1]
        builder_truncation [OF decode_three_lines, of 3]
  by simp

text \<open>
  C1 as stated fails: one float-load line decodes to \<open>M = 1\<close> float, \<open>N = 1\<close>, so
  \<open>M < 2N\<close>, and the builder returns \<open>N = 1\<close> sample.
\<close>

theorem builder_truncation_counterexample:
  "hex_to_float (extract_7th_column (filter_lines_by_flw [''1 2 3 4 5 flw 3f800000'']))
     = Inr [Binary32 0x3f800000] \<and>
   int (length [Binary32 0x3f800000]) < 2 * 1 \<and>
   int (length (parse_complex_array [Binary32 0x3f800000] 1)) = 1"
  by (simp add: decode_defs parse_complex_array_def slice_to_def)

text \<open>
  C6. For an odd-length float sequence the list built by the loop of
  \<open>parse_complex_array\<close>, before the slice, is not empty, and its last sample has
  imaginary part 0 and the last float as its real part.
\<close>

theorem odd_tail_policy:
  "odd (length float_array) \<Longrightarrow>
     complex_array float_array \<noteq> [] \<and>
     imag_part (last (complex_array float_array)) = 0 \<and>
     real_part (last (complex_array float_array)) = last float_array"
  by (auto simp: last_complex_array_odd complex_array_Nil_iff)

theorem odd_tail_policy_witness:
  "odd (length [Binary32 0x3f800000, Binary32 0x40000000, Binary32 0x40400000]) \<and>
   imag_part (last (complex_array [Binary32 0x3f800000, Binary32 0x40000000, Binary32 0x40400000]))
     = Binary32 0 \<and>
   real_part (last (complex_array [Binary32 0x3f800000, Binary32 0x40000000, Binary32 0x40400000]))
     = Binary32 0x40400000"
  using odd_tail_policy [of "[Binary32 0x3f800000, Binary32 0x40000000, Binary32 0x40400000]"]
  by (simp add: zero_binary32_def)

end
